theory Spec2Isabelle
  imports Main "HOL-Library.Word"
begin

section \<open>Password verification of src/backend/libpq/crypt.c\<close>

text \<open>
  The file holds one function, \<^verbatim>\<open>md5_crypt_verify\<close>. Its C strings (\<^verbatim>\<open>role\<close>,
  \<^verbatim>\<open>client_pass\<close>, \<^verbatim>\<open>shadow_pass\<close> and the buffers filled by \<^verbatim>\<open>pg_md5_encrypt\<close>)
  are modelled as the list of the bytes that precede the terminating NUL, so that
  \<^verbatim>\<open>*s == '\0'\<close> is \<open>s = []\<close>, \<^verbatim>\<open>strlen\<close> is \<open>length\<close> and \<^verbatim>\<open>s + k\<close> for
  \<open>k \<le> length s\<close> is \<open>drop k s\<close>. The pair \<^verbatim>\<open>md5_salt\<close>, \<^verbatim>\<open>md5_salt_len\<close> is an
  optional byte list: \<open>None\<close> for the NULL pointer, otherwise the \<^verbatim>\<open>md5_salt_len\<close>
  bytes the pointer refers to.
\<close>

subsection \<open>Data\<close>

text \<open>
  \<^verbatim>\<open>TimestampTz\<close> is declared outside this file; it is taken as the 64-bit signed
  integer of the integer-timestamp build, compared as a signed value.
\<close>

type_synonym TimestampTz = "64 word"

text \<open>
  The two attributes of a \<^verbatim>\<open>pg_authid\<close> tuple that the function reads with
  \<^verbatim>\<open>SysCacheGetAttr\<close>; \<open>None\<close> is the SQL null (\<^verbatim>\<open>isnull\<close> set).
\<close>

record pg_authid =
  rolpassword :: "string option"
  rolvaliduntil :: "TimestampTz option"

text \<open>The two return values of the function.\<close>

datatype status = STATUS_OK | STATUS_ERROR

text \<open>
  The five messages the function may store at \<^verbatim>\<open>*logdetail\<close>, each formatted with the
  role name:
  \<^item> \<^verbatim>\<open>Role "%s" does not exist.\<close>
  \<^item> \<^verbatim>\<open>User "%s" has no password assigned.\<close>
  \<^item> \<^verbatim>\<open>User "%s" has an empty password.\<close>
  \<^item> \<^verbatim>\<open>User "%s" has an expired password.\<close>
  \<^item> \<^verbatim>\<open>Password does not match for user "%s".\<close>
\<close>

datatype logdetail =
    Role_does_not_exist string
  | User_has_no_password_assigned string
  | User_has_an_empty_password string
  | User_has_an_expired_password string
  | Password_does_not_match string

text \<open>
  What a call does: it returns a status, having stored a message at \<^verbatim>\<open>*logdetail\<close>
  (\<open>Some\<close>) or having left it untouched (\<open>None\<close>); or, in a build with assertion
  checking, it stops at the failing \<^verbatim>\<open>Assert(md5_salt_len > 0)\<close> of line 99.
\<close>

datatype outcome = Returned status "logdetail option" | Assert_failure

text \<open>
  The state of lines 96 to 154 at their end: the two strings handed to \<^verbatim>\<open>strcmp\<close>
  (\<^verbatim>\<open>crypt_client_pass\<close> first, \<^verbatim>\<open>crypt_pwd\<close> second), or one of the early exits.
\<close>

datatype prepared = Compare string string | Encrypt_failed | Assert_failed

subsection \<open>Library functions\<close>

text \<open>
  \<^verbatim>\<open>strcmp\<close> of the C library, on the byte lists that stand for C strings: the sign of
  the difference of the first two bytes that differ, read as unsigned bytes, the end of a
  string being its NUL.
\<close>

fun strcmp :: "string \<Rightarrow> string \<Rightarrow> int" where
  "strcmp [] [] = 0"
| "strcmp [] (y # ys) = - 1"
| "strcmp (x # xs) [] = 1"
| "strcmp (x # xs) (y # ys) =
     (if x = y then strcmp xs ys
      else if (of_char x :: nat) < of_char y then - 1 else 1)"

text \<open>
  Modelled from the spec: the macro \<^verbatim>\<open>isMD5\<close> of \<^verbatim>\<open>common/md5.h\<close> is not part of the
  file. The spec identifies the hashed form "by a fixed marker/prefix" together with a
  fixed hashed length; the marker is the \<^verbatim>\<open>"md5"\<close> that lines 104 and 126 skip, the
  length is the constant \<^verbatim>\<open>MD5_PASSWD_LEN\<close>, a parameter here.
\<close>

definition isMD5 :: "nat \<Rightarrow> string \<Rightarrow> bool" where
  "isMD5 MD5_PASSWD_LEN passwd \<longleftrightarrow>
     take (length ''md5'') passwd = ''md5'' \<and> length passwd = MD5_PASSWD_LEN"

subsection \<open>The function\<close>

text \<open>
  Lines 96 to 154. The function \<^verbatim>\<open>pg_md5_encrypt\<close> (of \<^verbatim>\<open>common/md5.c\<close>, not part of
  the file) is a parameter: given the password and the salt bytes it yields the contents
  of the output buffer, or \<open>None\<close> where the C function returns false. The macro
  \<^verbatim>\<open>Assert\<close> is declared outside the file as well: with \<^verbatim>\<open>USE_ASSERT_CHECKING\<close>, a
  parameter, the \<^verbatim>\<open>Assert(md5_salt_len > 0)\<close> that begins the first branch stops the
  call on an empty salt; without it the macro is empty and the call goes on. The
  pointers \<^verbatim>\<open>shadow_pass + strlen("md5")\<close> and \<^verbatim>\<open>crypt_pwd2 + strlen("md5")\<close> are
  \<open>drop\<close>; the first is taken for a string of the hashed shape only, the second for
  a buffer that \<^verbatim>\<open>pg_md5_encrypt\<close> has filled with the marker and a digest.
\<close>

definition comparison_values ::
  "bool \<Rightarrow> nat \<Rightarrow> (string \<Rightarrow> string \<Rightarrow> string option) \<Rightarrow> string \<Rightarrow> string \<Rightarrow> string
     \<Rightarrow> string option \<Rightarrow> prepared" where
  "comparison_values USE_ASSERT_CHECKING MD5_PASSWD_LEN pg_md5_encrypt role shadow_pass
       client_pass md5_salt =
     (case md5_salt of
        Some salt \<Rightarrow>
          if USE_ASSERT_CHECKING \<and> salt = [] then Assert_failed
          else if isMD5 MD5_PASSWD_LEN shadow_pass then
            (case pg_md5_encrypt (drop (length ''md5'') shadow_pass) salt of
               None \<Rightarrow> Encrypt_failed
             | Some crypt_pwd \<Rightarrow> Compare client_pass crypt_pwd)
          else
            (case pg_md5_encrypt shadow_pass role of
               None \<Rightarrow> Encrypt_failed
             | Some crypt_pwd2 \<Rightarrow>
                 (case pg_md5_encrypt (drop (length ''md5'') crypt_pwd2) salt of
                    None \<Rightarrow> Encrypt_failed
                  | Some crypt_pwd \<Rightarrow> Compare client_pass crypt_pwd))
      | None \<Rightarrow>
          if isMD5 MD5_PASSWD_LEN shadow_pass then
            (case pg_md5_encrypt client_pass role of
               None \<Rightarrow> Encrypt_failed
             | Some crypt_client_pass \<Rightarrow> Compare crypt_client_pass shadow_pass)
          else Compare client_pass shadow_pass)"

text \<open>
  The whole function. \<^verbatim>\<open>SearchSysCache1(AUTHNAME, role)\<close> is the parameter
  \<open>SearchSysCache1\<close> (\<open>None\<close> for an invalid tuple) and \<^verbatim>\<open>GetCurrentTimestamp()\<close> the
  parameter \<open>now\<close>.
\<close>

definition md5_crypt_verify ::
  "bool \<Rightarrow> nat \<Rightarrow> (string \<Rightarrow> string \<Rightarrow> string option) \<Rightarrow> (string \<Rightarrow> pg_authid option)
     \<Rightarrow> TimestampTz \<Rightarrow> string \<Rightarrow> string \<Rightarrow> string option \<Rightarrow> outcome" where
  "md5_crypt_verify USE_ASSERT_CHECKING MD5_PASSWD_LEN pg_md5_encrypt SearchSysCache1 now role
       client_pass md5_salt =
     (case SearchSysCache1 role of
        None \<Rightarrow> Returned STATUS_ERROR (Some (Role_does_not_exist role))
      | Some roleTup \<Rightarrow>
          (case rolpassword roleTup of
             None \<Rightarrow> Returned STATUS_ERROR (Some (User_has_no_password_assigned role))
           | Some shadow_pass \<Rightarrow>
               if shadow_pass = [] then
                 Returned STATUS_ERROR (Some (User_has_an_empty_password role))
               else
                 (case comparison_values USE_ASSERT_CHECKING MD5_PASSWD_LEN pg_md5_encrypt
                         role shadow_pass client_pass md5_salt of
                    Assert_failed \<Rightarrow> Assert_failure
                  | Encrypt_failed \<Rightarrow> Returned STATUS_ERROR None
                  | Compare crypt_client_pass crypt_pwd \<Rightarrow>
                      if strcmp crypt_client_pass crypt_pwd = 0 then
                        (case rolvaliduntil roleTup of
                           None \<Rightarrow> Returned STATUS_OK None
                         | Some vuntil \<Rightarrow>
                             if vuntil <s now then
                               Returned STATUS_ERROR (Some (User_has_an_expired_password role))
                             else Returned STATUS_OK None)
                      else Returned STATUS_ERROR (Some (Password_does_not_match role)))))"

subsection \<open>Sample environments\<close>

text \<open>
  A stand-in for \<^verbatim>\<open>pg_md5_encrypt\<close> that has its output shape (the marker followed by
  32 characters) and never fails, and a directory of five roles.
\<close>

definition sample_encrypt :: "string \<Rightarrow> string \<Rightarrow> string option" where
  "sample_encrypt passwd salt =
     Some (''md5'' @ take 32 (salt @ passwd @ ''00000000000000000000000000000000''))"

definition sample_cache :: "string \<Rightarrow> pg_authid option" where
  "sample_cache role =
     (if role = ''alice'' then
        Some \<lparr>rolpassword = Some ''secret123'', rolvaliduntil = None\<rparr>
      else if role = ''bob'' then
        Some \<lparr>rolpassword = Some ''md5bobp@ss0000000000000000000000000'',
              rolvaliduntil = None\<rparr>
      else if role = ''carol'' then
        Some \<lparr>rolpassword = None, rolvaliduntil = None\<rparr>
      else if role = ''dave'' then
        Some \<lparr>rolpassword = Some [], rolvaliduntil = None\<rparr>
      else if role = ''erin'' then
        Some \<lparr>rolpassword = Some ''hunter2'', rolvaliduntil = Some 5000000\<rparr>
      else None)"

text \<open>
  A directory that differs from the sample one in the rows of \<open>alice\<close> and \<open>bob\<close>:
  each password is stored as \<open>sample_encrypt\<close> makes it from the string the sample
  directory stores and the role name.
\<close>

definition upgraded_cache :: "string \<Rightarrow> pg_authid option" where
  "upgraded_cache role =
     (if role = ''alice'' then
        Some \<lparr>rolpassword = Some ''md5alicesecret123000000000000000000'',
              rolvaliduntil = None\<rparr>
      else if role = ''bob'' then
        Some \<lparr>rolpassword = Some ''md5bobmd5bobp@ss0000000000000000000'',
              rolvaliduntil = None\<rparr>
      else sample_cache role)"

text \<open>
  Two more stand-ins for \<^verbatim>\<open>pg_md5_encrypt\<close>, which returns false when it cannot
  allocate its buffer: one for which every call fails, and one that fails for the session
  salt \<^verbatim>\<open>XY12\<close> only.
\<close>

definition failing_encrypt :: "string \<Rightarrow> string \<Rightarrow> string option" where
  "failing_encrypt passwd salt = None"

definition salting_fails_encrypt :: "string \<Rightarrow> string \<Rightarrow> string option" where
  "salting_fails_encrypt passwd salt =
     (if salt = ''XY12'' then None else sample_encrypt passwd salt)"

section \<open>Properties\<close>

subsection \<open>Auxiliary facts\<close>

lemma strcmp_eq_0_iff: "strcmp a b = 0 \<longleftrightarrow> a = b"
  by (induction a b rule: strcmp.induct) auto

lemma isMD5_nonempty: "isMD5 n s \<Longrightarrow> s \<noteq> []"
  by (auto simp: isMD5_def)

lemma verify_known_role:
  assumes "cache role = Some roleTup"
    and "rolpassword roleTup = Some shadow_pass"
    and "shadow_pass \<noteq> []"
  shows "md5_crypt_verify asserts n enc cache now role client_pass md5_salt
         = (case comparison_values asserts n enc role shadow_pass client_pass md5_salt of
              Compare crypt_client_pass crypt_pwd \<Rightarrow>
                if crypt_client_pass = crypt_pwd then
                  (case rolvaliduntil roleTup of
                     None \<Rightarrow> Returned STATUS_OK None
                   | Some vuntil \<Rightarrow>
                       if vuntil <s now then
                         Returned STATUS_ERROR (Some (User_has_an_expired_password role))
                       else Returned STATUS_OK None)
                else Returned STATUS_ERROR (Some (Password_does_not_match role))
            | Encrypt_failed \<Rightarrow> Returned STATUS_ERROR None
            | Assert_failed \<Rightarrow> Assert_failure)"
  using assms
  by (simp add: md5_crypt_verify_def strcmp_eq_0_iff split: prepared.split)

lemma sample_rows:
  "sample_cache ''alice'' = Some \<lparr>rolpassword = Some ''secret123'', rolvaliduntil = None\<rparr>"
  "sample_cache ''bob''
     = Some \<lparr>rolpassword = Some ''md5bobp@ss0000000000000000000000000'',
             rolvaliduntil = None\<rparr>"
  "sample_cache ''carol'' = Some \<lparr>rolpassword = None, rolvaliduntil = None\<rparr>"
  "sample_cache ''dave'' = Some \<lparr>rolpassword = Some [], rolvaliduntil = None\<rparr>"
  "sample_cache ''erin''
     = Some \<lparr>rolpassword = Some ''hunter2'', rolvaliduntil = Some 5000000\<rparr>"
  "sample_cache ''mallory'' = None"
  by (simp_all add: sample_cache_def)

lemma sample_shapes:
  "isMD5 35 ''md5bobp@ss0000000000000000000000000''"
  "\<not> isMD5 35 ''secret123''"
  by (simp_all add: isMD5_def)

subsection \<open>The claims\<close>

text \<open>
  C1, as stated for every plaintext secret, does not hold for one of the hashed shape:
  line 101 takes the stored string for a hash, so what is salted is the stored string
  with its first three bytes stripped, not its encryption with the role name. For the
  role \<open>bob\<close>, whose stored string has the shape, the response that the upgrade path
  would expect is rejected, and accepted once the password is stored pre-hashed.
\<close>

theorem shaped_plaintext_counterexample:
  "sample_encrypt ''md5bobp@ss0000000000000000000000000'' ''bob''
     = Some ''md5bobmd5bobp@ss0000000000000000000''
   \<and> comparison_values True 35 sample_encrypt ''bob'' ''md5bobp@ss0000000000000000000000000''
       ''md5XY12bobmd5bobp@ss000000000000000'' (Some ''XY12'')
     = Compare ''md5XY12bobmd5bobp@ss000000000000000'' ''md5XY12bobp@ss000000000000000000000''
   \<and> comparison_values True 35 sample_encrypt ''bob'' ''md5bobmd5bobp@ss0000000000000000000''
       ''md5XY12bobmd5bobp@ss000000000000000'' (Some ''XY12'')
     = Compare ''md5XY12bobmd5bobp@ss000000000000000'' ''md5XY12bobmd5bobp@ss000000000000000''
   \<and> md5_crypt_verify True 35 sample_encrypt sample_cache 0 ''bob''
       ''md5XY12bobmd5bobp@ss000000000000000'' (Some ''XY12'')
     = Returned STATUS_ERROR (Some (Password_does_not_match ''bob''))
   \<and> md5_crypt_verify True 35 sample_encrypt upgraded_cache 0 ''bob''
       ''md5XY12bobmd5bobp@ss000000000000000'' (Some ''XY12'')
     = Returned STATUS_OK None"
  by (simp add: md5_crypt_verify_def comparison_values_def sample_cache_def
        upgraded_cache_def isMD5_def sample_encrypt_def)

text \<open>
  C1, amended. Upgrade equivalence. Let the stored plaintext \<open>secret\<close> not have the
  hashed shape, and let \<open>hashed\<close>, of the hashed shape, be what \<^verbatim>\<open>pg_md5_encrypt\<close> makes
  of \<open>secret\<close> and the role name. Then for every session salt and every response the
  values compared for the stored \<open>secret\<close> and for the stored \<open>hashed\<close> are the same
  pair: the response and the encryption of \<open>hashed\<close>, marker stripped, with the salt.
  The whole function returns the same for a directory that stores \<open>secret\<close> and one
  that stores \<open>hashed\<close>: the result of comparing the response with that encryption.
\<close>

theorem upgrade_equivalence:
  assumes "enc secret role = Some hashed"
    and "isMD5 n hashed"
    and "\<not> isMD5 n secret"
    and "legacy_cache role = Some \<lparr>rolpassword = Some secret, rolvaliduntil = until\<rparr>"
    and "hashed_cache role = Some \<lparr>rolpassword = Some hashed, rolvaliduntil = until\<rparr>"
  shows "(let prepared =
            (if asserts \<and> salt = [] then Assert_failed
             else (case enc (drop 3 hashed) salt of
                     None \<Rightarrow> Encrypt_failed
                   | Some expected \<Rightarrow> Compare client_pass expected))
          in comparison_values asserts n enc role secret client_pass (Some salt) = prepared
           \<and> comparison_values asserts n enc role hashed client_pass (Some salt) = prepared)
       \<and> (secret \<noteq> [] \<longrightarrow>
            (let result =
               (if asserts \<and> salt = [] then Assert_failure
                else (case enc (drop 3 hashed) salt of
                        None \<Rightarrow> Returned STATUS_ERROR None
                      | Some expected \<Rightarrow>
                          if client_pass = expected then
                            (case until of
                               None \<Rightarrow> Returned STATUS_OK None
                             | Some vuntil \<Rightarrow>
                                 if vuntil <s now then
                                   Returned STATUS_ERROR
                                     (Some (User_has_an_expired_password role))
                                 else Returned STATUS_OK None)
                          else Returned STATUS_ERROR (Some (Password_does_not_match role))))
             in md5_crypt_verify asserts n enc legacy_cache now role client_pass (Some salt)
                  = result
              \<and> md5_crypt_verify asserts n enc hashed_cache now role client_pass (Some salt)
                  = result))"
proof -
  have hashed: "hashed \<noteq> []"
    using assms(2) by (rule isMD5_nonempty)
  have cv: "comparison_values asserts n enc role secret client_pass (Some salt)
      = (if asserts \<and> salt = [] then Assert_failed
         else (case enc (drop 3 hashed) salt of
                 None \<Rightarrow> Encrypt_failed
               | Some expected \<Rightarrow> Compare client_pass expected))"
    "comparison_values asserts n enc role hashed client_pass (Some salt)
      = (if asserts \<and> salt = [] then Assert_failed
         else (case enc (drop 3 hashed) salt of
                 None \<Rightarrow> Encrypt_failed
               | Some expected \<Rightarrow> Compare client_pass expected))"
    using assms(1-3) by (simp_all add: comparison_values_def numeral_3_eq_3)
  have legacy: "secret \<noteq> [] \<Longrightarrow>
      md5_crypt_verify asserts n enc legacy_cache now role client_pass (Some salt)
      = (if asserts \<and> salt = [] then Assert_failure
                else (case enc (drop 3 hashed) salt of
                        None \<Rightarrow> Returned STATUS_ERROR None
                      | Some expected \<Rightarrow>
                          if client_pass = expected then
                            (case until of
                               None \<Rightarrow> Returned STATUS_OK None
                             | Some vuntil \<Rightarrow>
                                 if vuntil <s now then
                                   Returned STATUS_ERROR
                                     (Some (User_has_an_expired_password role))
                                 else Returned STATUS_OK None)
                          else Returned STATUS_ERROR (Some (Password_does_not_match role))))"
    using assms(4) by (simp add: verify_known_role [where shadow_pass = secret] cv(1)
        split: option.split)
  have upgraded:
      "md5_crypt_verify asserts n enc hashed_cache now role client_pass (Some salt)
      = (if asserts \<and> salt = [] then Assert_failure
                else (case enc (drop 3 hashed) salt of
                        None \<Rightarrow> Returned STATUS_ERROR None
                      | Some expected \<Rightarrow>
                          if client_pass = expected then
                            (case until of
                               None \<Rightarrow> Returned STATUS_OK None
                             | Some vuntil \<Rightarrow>
                                 if vuntil <s now then
                                   Returned STATUS_ERROR
                                     (Some (User_has_an_expired_password role))
                                 else Returned STATUS_OK None)
                          else Returned STATUS_ERROR (Some (Password_does_not_match role))))"
    using assms(5) hashed by (simp add: verify_known_role [where shadow_pass = hashed] cv(2)
        split: option.split)
  from cv legacy upgraded show ?thesis
    by (simp add: Let_def)
qed

theorem upgrade_equivalence_witness:
  "comparison_values True 35 sample_encrypt ''alice'' ''secret123''
       ''md5XY12alicesecret12300000000000000'' (Some ''XY12'')
     = Compare ''md5XY12alicesecret12300000000000000'' ''md5XY12alicesecret12300000000000000''
   \<and> comparison_values True 35 sample_encrypt ''alice'' ''md5alicesecret123000000000000000000''
       ''md5XY12alicesecret12300000000000000'' (Some ''XY12'')
     = Compare ''md5XY12alicesecret12300000000000000'' ''md5XY12alicesecret12300000000000000''
   \<and> md5_crypt_verify True 35 sample_encrypt sample_cache 0 ''alice''
       ''md5XY12alicesecret12300000000000000'' (Some ''XY12'')
     = Returned STATUS_OK None
   \<and> md5_crypt_verify True 35 sample_encrypt upgraded_cache 0 ''alice''
       ''md5XY12alicesecret12300000000000000'' (Some ''XY12'')
     = Returned STATUS_OK None"
  using upgrade_equivalence [where enc = sample_encrypt and secret = "''secret123''"
      and role = "''alice''" and hashed = "''md5alicesecret123000000000000000000''"
      and asserts = True and n = 35 and legacy_cache = sample_cache
      and hashed_cache = upgraded_cache and until = None and now = 0 and salt = "''XY12''"
      and client_pass = "''md5XY12alicesecret12300000000000000''"]
  by (simp add: sample_encrypt_def isMD5_def sample_cache_def upgraded_cache_def Let_def)

text \<open>
  C3. The two compared values, by stored form and presented form. Stored hashed, salted
  response: the response against the stored value, marker stripped, encrypted with the
  salt. Stored plain, salted response: the response against the stored value encrypted
  with the role name, then, marker stripped, with the salt. Stored hashed, plaintext
  presented: the presented password encrypted with the role name against the stored
  value. Stored plain, plaintext presented: the two as they are. The function reports a
  mismatch exactly when the two values differ.
\<close>

theorem comparison_case_split:
  shows "(isMD5 n shadow_pass \<and> md5_salt = Some salt \<and> salt \<noteq> [] \<longrightarrow>
            comparison_values asserts n enc role shadow_pass client_pass md5_salt
            = (case enc (drop 3 shadow_pass) salt of
                 None \<Rightarrow> Encrypt_failed
               | Some expected \<Rightarrow> Compare client_pass expected))
       \<and> (\<not> isMD5 n shadow_pass \<and> md5_salt = Some salt \<and> salt \<noteq> [] \<longrightarrow>
            comparison_values asserts n enc role shadow_pass client_pass md5_salt
            = (case enc shadow_pass role of
                 None \<Rightarrow> Encrypt_failed
               | Some intermediate \<Rightarrow>
                   (case enc (drop 3 intermediate) salt of
                      None \<Rightarrow> Encrypt_failed
                    | Some expected \<Rightarrow> Compare client_pass expected)))
       \<and> (isMD5 n shadow_pass \<and> md5_salt = None \<longrightarrow>
            comparison_values asserts n enc role shadow_pass client_pass md5_salt
            = (case enc client_pass role of
                 None \<Rightarrow> Encrypt_failed
               | Some hashed \<Rightarrow> Compare hashed shadow_pass))
       \<and> (\<not> isMD5 n shadow_pass \<and> md5_salt = None \<longrightarrow>
            comparison_values asserts n enc role shadow_pass client_pass md5_salt
            = Compare client_pass shadow_pass)
       \<and> (cache role = Some roleTup \<and> rolpassword roleTup = Some shadow_pass
            \<and> shadow_pass \<noteq> []
            \<and> comparison_values asserts n enc role shadow_pass client_pass md5_salt = Compare a b \<longrightarrow>
            (md5_crypt_verify asserts n enc cache now role client_pass md5_salt
               = Returned STATUS_ERROR (Some (Password_does_not_match role)))
            = (a \<noteq> b))"
proof (intro conjI impI)
  assume "cache role = Some roleTup \<and> rolpassword roleTup = Some shadow_pass
            \<and> shadow_pass \<noteq> []
            \<and> comparison_values asserts n enc role shadow_pass client_pass md5_salt = Compare a b"
  then show "(md5_crypt_verify asserts n enc cache now role client_pass md5_salt
               = Returned STATUS_ERROR (Some (Password_does_not_match role)))
            = (a \<noteq> b)"
    by (simp add: md5_crypt_verify_def strcmp_eq_0_iff split: option.split)
qed (simp_all add: comparison_values_def numeral_3_eq_3 cong: option.case_cong)

theorem comparison_case_split_witness:
  "comparison_values True 35 sample_encrypt ''bob'' ''md5bobp@ss0000000000000000000000000''
     ''guess'' (Some ''XY12'')
     = Compare ''guess'' ''md5XY12bobp@ss000000000000000000000''
   \<and> comparison_values True 35 sample_encrypt ''alice'' ''secret123'' ''guess'' (Some ''XY12'')
     = Compare ''guess'' ''md5XY12alicesecret12300000000000000''
   \<and> comparison_values True 35 sample_encrypt ''bob'' ''md5bobp@ss0000000000000000000000000''
     ''guess'' None
     = Compare ''md5bobguess000000000000000000000000'' ''md5bobp@ss0000000000000000000000000''
   \<and> comparison_values True 35 sample_encrypt ''alice'' ''secret123'' ''guess'' None
     = Compare ''guess'' ''secret123''
   \<and> md5_crypt_verify True 35 sample_encrypt sample_cache 0 ''alice'' ''guess'' None
     = Returned STATUS_ERROR (Some (Password_does_not_match ''alice''))"
proof -
  note cs = comparison_case_split [where asserts = True and n = 35 and enc = sample_encrypt and salt = "''XY12''"
      and client_pass = "''guess''" and cache = sample_cache and now = 0]
  have 1: "comparison_values True 35 sample_encrypt ''bob'' ''md5bobp@ss0000000000000000000000000''
     ''guess'' (Some ''XY12'')
     = Compare ''guess'' ''md5XY12bobp@ss000000000000000000000''"
    using cs [where shadow_pass = "''md5bobp@ss0000000000000000000000000''"
        and role = "''bob''" and md5_salt = "Some ''XY12''"] sample_shapes
    by (simp add: sample_encrypt_def)
  have 2: "comparison_values True 35 sample_encrypt ''alice'' ''secret123'' ''guess'' (Some ''XY12'')
     = Compare ''guess'' ''md5XY12alicesecret12300000000000000''"
    using cs [where shadow_pass = "''secret123''"
        and role = "''alice''" and md5_salt = "Some ''XY12''"] sample_shapes
    by (simp add: sample_encrypt_def)
  have 3: "comparison_values True 35 sample_encrypt ''bob'' ''md5bobp@ss0000000000000000000000000''
     ''guess'' None
     = Compare ''md5bobguess000000000000000000000000'' ''md5bobp@ss0000000000000000000000000''"
    using cs [where shadow_pass = "''md5bobp@ss0000000000000000000000000''"
        and role = "''bob''" and md5_salt = None] sample_shapes
    by (simp add: sample_encrypt_def)
  have 4: "comparison_values True 35 sample_encrypt ''alice'' ''secret123'' ''guess'' None
     = Compare ''guess'' ''secret123''"
    using cs [where shadow_pass = "''secret123''"
        and role = "''alice''" and md5_salt = None] sample_shapes
    by simp
  have 5: "md5_crypt_verify True 35 sample_encrypt sample_cache 0 ''alice'' ''guess'' None
     = Returned STATUS_ERROR (Some (Password_does_not_match ''alice''))"
    using cs [where shadow_pass = "''secret123''" and role = "''alice''" and md5_salt = None
        and roleTup = "\<lparr>rolpassword = Some ''secret123'', rolvaliduntil = None\<rparr>"
        and a = "''guess''" and b = "''secret123''"] sample_rows(1) 4
    by simp
  from 1 2 3 4 5 show ?thesis by simp
qed

text \<open>
  C4. A role that the catalogue lookup does not find is rejected with the message
  "Role does not exist", whatever the client presented: password, salt and clock do not
  enter the result.
\<close>

theorem unknown_role_rejected:
  assumes "cache role = None"
  shows "md5_crypt_verify asserts n enc cache now role client_pass md5_salt
         = Returned STATUS_ERROR (Some (Role_does_not_exist role))"
  using assms by (simp add: md5_crypt_verify_def)

theorem unknown_role_rejected_witness:
  "md5_crypt_verify True 35 sample_encrypt sample_cache 0 ''mallory'' ''secret123'' (Some ''XY12'')
   = Returned STATUS_ERROR (Some (Role_does_not_exist ''mallory''))"
  by (rule unknown_role_rejected) (simp add: sample_cache_def)

text \<open>
  C5. A role whose stored password is the empty string is rejected with the message
  "has an empty password", and a role whose password attribute is null is rejected with
  the message "has no password assigned", whatever the client presented.
\<close>

theorem missing_or_empty_password_rejected:
  assumes "cache role = Some roleTup"
  shows "(rolpassword roleTup = Some [] \<longrightarrow>
            md5_crypt_verify asserts n enc cache now role client_pass md5_salt
            = Returned STATUS_ERROR (Some (User_has_an_empty_password role)))
       \<and> (rolpassword roleTup = None \<longrightarrow>
            md5_crypt_verify asserts n enc cache now role client_pass md5_salt
            = Returned STATUS_ERROR (Some (User_has_no_password_assigned role)))"
  using assms by (simp add: md5_crypt_verify_def)

theorem missing_or_empty_password_rejected_witness:
  "md5_crypt_verify True 35 sample_encrypt sample_cache 0 ''dave'' ''hunter2'' None
     = Returned STATUS_ERROR (Some (User_has_an_empty_password ''dave''))
   \<and> md5_crypt_verify True 35 sample_encrypt sample_cache 0 ''carol'' ''hunter2'' (Some ''XY12'')
     = Returned STATUS_ERROR (Some (User_has_no_password_assigned ''carol''))"
  using missing_or_empty_password_rejected
          [where cache = sample_cache and role = "''dave''"
             and roleTup = "\<lparr>rolpassword = Some [], rolvaliduntil = None\<rparr>"
             and asserts = True and n = 35 and enc = sample_encrypt and now = 0
             and client_pass = "''hunter2''" and md5_salt = None]
        missing_or_empty_password_rejected
          [where cache = sample_cache and role = "''carol''"
             and roleTup = "\<lparr>rolpassword = None, rolvaliduntil = None\<rparr>"
             and asserts = True and n = 35 and enc = sample_encrypt and now = 0
             and client_pass = "''hunter2''" and md5_salt = "Some ''XY12''"]
  by (simp add: sample_cache_def)

text \<open>
  C6. Expiration boundary. Let the presented secret match (the two compared values are
  equal). With \<^verbatim>\<open>rolvaliduntil\<close> set to \<open>T\<close>, a call at a time that lies a positive
  duration \<open>d\<close> before \<open>T\<close> returns \<^verbatim>\<open>STATUS_OK\<close>, and a call at a time that lies
  \<open>d\<close> after \<open>T\<close> returns \<^verbatim>\<open>STATUS_ERROR\<close> with the message "has an expired
  password"; one second is \<open>d = 1000000\<close> microseconds. With \<^verbatim>\<open>rolvaliduntil\<close> null
  the call returns \<^verbatim>\<open>STATUS_OK\<close> at every time.
\<close>

theorem expiration_boundary:
  assumes "cache role = Some roleTup"
    and "rolpassword roleTup = Some shadow_pass"
    and "shadow_pass \<noteq> []"
    and "comparison_values asserts n enc role shadow_pass client_pass md5_salt = Compare a b"
    and "strcmp a b = 0"
  shows "(rolvaliduntil roleTup = Some T \<and> 0 < d \<and> sint now = sint T - d \<longrightarrow>
            md5_crypt_verify asserts n enc cache now role client_pass md5_salt
            = Returned STATUS_OK None)
       \<and> (rolvaliduntil roleTup = Some T \<and> 0 < d \<and> sint now = sint T + d \<longrightarrow>
            md5_crypt_verify asserts n enc cache now role client_pass md5_salt
            = Returned STATUS_ERROR (Some (User_has_an_expired_password role)))
       \<and> (rolvaliduntil roleTup = None \<longrightarrow>
            md5_crypt_verify asserts n enc cache now role client_pass md5_salt
            = Returned STATUS_OK None)"
  using assms by (simp add: md5_crypt_verify_def word_sless_alt)

theorem expiration_boundary_witness:
  "md5_crypt_verify True 35 sample_encrypt sample_cache 4000000 ''erin'' ''hunter2'' None
     = Returned STATUS_OK None
   \<and> md5_crypt_verify True 35 sample_encrypt sample_cache 6000000 ''erin'' ''hunter2'' None
     = Returned STATUS_ERROR (Some (User_has_an_expired_password ''erin''))
   \<and> md5_crypt_verify True 35 sample_encrypt sample_cache 6000000 ''alice'' ''secret123'' None
     = Returned STATUS_OK None"
proof -
  have cmp: "strcmp ''hunter2'' ''hunter2'' = 0" "strcmp ''secret123'' ''secret123'' = 0"
    by simp_all
  have erin: "sample_cache ''erin''
      = Some \<lparr>rolpassword = Some ''hunter2'', rolvaliduntil = Some 5000000\<rparr>"
    and alice: "sample_cache ''alice''
      = Some \<lparr>rolpassword = Some ''secret123'', rolvaliduntil = None\<rparr>"
    by (simp_all add: sample_cache_def)
  have cv: "comparison_values True 35 sample_encrypt ''erin'' ''hunter2'' ''hunter2'' None
      = Compare ''hunter2'' ''hunter2''"
    "comparison_values True 35 sample_encrypt ''alice'' ''secret123'' ''secret123'' None
      = Compare ''secret123'' ''secret123''"
    by (simp_all add: comparison_values_def isMD5_def)
  have s: "sint (4000000 :: 64 word) = sint (5000000 :: 64 word) - 1000000"
    "sint (6000000 :: 64 word) = sint (5000000 :: 64 word) + 1000000"
    by simp_all
  from expiration_boundary
         [where cache = sample_cache and role = "''erin''" and roleTup = "\<lparr>rolpassword = Some ''hunter2'', rolvaliduntil = Some 5000000\<rparr>"
            and shadow_pass = "''hunter2''" and asserts = True and n = 35 and enc = sample_encrypt
            and client_pass = "''hunter2''" and md5_salt = None and a = "''hunter2''" and b = "''hunter2''"
            and T = 5000000 and d = 1000000 and now = 4000000]
    erin cv(1) cmp(1) s(1)
  have 1: "md5_crypt_verify True 35 sample_encrypt sample_cache 4000000 ''erin'' ''hunter2'' None
     = Returned STATUS_OK None" by simp
  from expiration_boundary
         [where cache = sample_cache and role = "''erin''" and roleTup = "\<lparr>rolpassword = Some ''hunter2'', rolvaliduntil = Some 5000000\<rparr>"
            and shadow_pass = "''hunter2''" and asserts = True and n = 35 and enc = sample_encrypt
            and client_pass = "''hunter2''" and md5_salt = None and a = "''hunter2''" and b = "''hunter2''"
            and T = 5000000 and d = 1000000 and now = 6000000]
    erin cv(1) cmp(1) s(2)
  have 2: "md5_crypt_verify True 35 sample_encrypt sample_cache 6000000 ''erin'' ''hunter2'' None
     = Returned STATUS_ERROR (Some (User_has_an_expired_password ''erin''))" by simp
  from expiration_boundary
         [where cache = sample_cache and role = "''alice''" and roleTup = "\<lparr>rolpassword = Some ''secret123'', rolvaliduntil = None\<rparr>"
            and shadow_pass = "''secret123''" and asserts = True and n = 35 and enc = sample_encrypt
            and client_pass = "''secret123''" and md5_salt = None and a = "''secret123''" and b = "''secret123''"
            and T = 0 and d = 0 and now = 6000000]
    alice cv(2) cmp(2)
  have 3: "md5_crypt_verify True 35 sample_encrypt sample_cache 6000000 ''alice'' ''secret123'' None
     = Returned STATUS_OK None" by simp
  from 1 2 3 show ?thesis by simp
qed

text \<open>
  C7. Whichever call of \<^verbatim>\<open>pg_md5_encrypt\<close> fails (the salting of a stored hash; the
  first or the second encryption of a stored plaintext; the encryption of a presented
  plaintext), the function returns \<^verbatim>\<open>STATUS_ERROR\<close> and stores no message. That
  outcome differs from the one of a mismatch, which stores "Password does not match".
\<close>

theorem encrypt_failure_outcome:
  assumes "cache role = Some roleTup"
    and "rolpassword roleTup = Some shadow_pass"
    and "shadow_pass \<noteq> []"
    and "salt \<noteq> []"
  shows "(isMD5 n shadow_pass \<and> enc (drop 3 shadow_pass) salt = None \<longrightarrow>
            md5_crypt_verify asserts n enc cache now role client_pass (Some salt)
            = Returned STATUS_ERROR None)
       \<and> (\<not> isMD5 n shadow_pass \<and> enc shadow_pass role = None \<longrightarrow>
            md5_crypt_verify asserts n enc cache now role client_pass (Some salt)
            = Returned STATUS_ERROR None)
       \<and> (\<not> isMD5 n shadow_pass \<and> enc shadow_pass role = Some intermediate
            \<and> enc (drop 3 intermediate) salt = None \<longrightarrow>
            md5_crypt_verify asserts n enc cache now role client_pass (Some salt)
            = Returned STATUS_ERROR None)
       \<and> (isMD5 n shadow_pass \<and> enc client_pass role = None \<longrightarrow>
            md5_crypt_verify asserts n enc cache now role client_pass None
            = Returned STATUS_ERROR None)
       \<and> Returned STATUS_ERROR None
            \<noteq> Returned STATUS_ERROR (Some (Password_does_not_match role))"
  using assms
  by (simp add: verify_known_role comparison_values_def numeral_3_eq_3)

theorem encrypt_failure_outcome_witness:
  "md5_crypt_verify True 35 failing_encrypt sample_cache 0 ''bob''
     ''md5XY12bobp@ss000000000000000000000'' (Some ''XY12'')
     = Returned STATUS_ERROR None
   \<and> md5_crypt_verify True 35 failing_encrypt sample_cache 0 ''alice''
     ''md5XY12alicesecret12300000000000000'' (Some ''XY12'')
     = Returned STATUS_ERROR None
   \<and> md5_crypt_verify True 35 salting_fails_encrypt sample_cache 0 ''alice''
     ''md5XY12alicesecret12300000000000000'' (Some ''XY12'')
     = Returned STATUS_ERROR None
   \<and> md5_crypt_verify True 35 failing_encrypt sample_cache 0 ''bob'' ''p@ss'' None
     = Returned STATUS_ERROR None"
proof -
  have bob: "md5_crypt_verify True 35 failing_encrypt sample_cache 0 ''bob''
     ''md5XY12bobp@ss000000000000000000000'' (Some ''XY12'')
     = Returned STATUS_ERROR None
   \<and> md5_crypt_verify True 35 failing_encrypt sample_cache 0 ''bob'' ''p@ss'' None
     = Returned STATUS_ERROR None"
    using encrypt_failure_outcome [where asserts = True and n = 35 and enc = failing_encrypt
        and cache = sample_cache and role = "''bob''"
        and roleTup = "\<lparr>rolpassword = Some ''md5bobp@ss0000000000000000000000000'',
                        rolvaliduntil = None\<rparr>"
        and shadow_pass = "''md5bobp@ss0000000000000000000000000''" 
        and salt = "''XY12''" and now = 0 and client_pass = "''md5XY12bobp@ss000000000000000000000''"]
      encrypt_failure_outcome [where asserts = True and n = 35 and enc = failing_encrypt
        and cache = sample_cache and role = "''bob''"
        and roleTup = "\<lparr>rolpassword = Some ''md5bobp@ss0000000000000000000000000'',
                        rolvaliduntil = None\<rparr>"
        and shadow_pass = "''md5bobp@ss0000000000000000000000000''" 
        and salt = "''XY12''" and now = 0 and client_pass = "''p@ss''"]
      sample_shapes sample_rows
    by (simp add: failing_encrypt_def)
  have alice1: "md5_crypt_verify True 35 failing_encrypt sample_cache 0 ''alice''
     ''md5XY12alicesecret12300000000000000'' (Some ''XY12'')
     = Returned STATUS_ERROR None"
    using encrypt_failure_outcome [where asserts = True and n = 35 and enc = failing_encrypt
        and cache = sample_cache and role = "''alice''"
        and roleTup = "\<lparr>rolpassword = Some ''secret123'', rolvaliduntil = None\<rparr>"
        and shadow_pass = "''secret123''" 
        and salt = "''XY12''" and now = 0 and client_pass = "''md5XY12alicesecret12300000000000000''"]
      sample_shapes sample_rows
    by (simp add: failing_encrypt_def)
  have alice2: "md5_crypt_verify True 35 salting_fails_encrypt sample_cache 0 ''alice''
     ''md5XY12alicesecret12300000000000000'' (Some ''XY12'')
     = Returned STATUS_ERROR None"
    using encrypt_failure_outcome [where asserts = True and n = 35
        and cache = sample_cache and role = "''alice''"
        and roleTup = "\<lparr>rolpassword = Some ''secret123'', rolvaliduntil = None\<rparr>"
        and shadow_pass = "''secret123''" 
        and enc = salting_fails_encrypt and salt = "''XY12''" and now = 0
        and client_pass = "''md5XY12alicesecret12300000000000000''"
        and intermediate = "''md5alicesecret123000000000000000000''"]
      sample_shapes sample_rows
    by (simp add: salting_fails_encrypt_def sample_encrypt_def)
  from bob alice1 alice2 show ?thesis by simp
qed

text \<open>
  C8. Every call returns \<^verbatim>\<open>STATUS_OK\<close> with no message stored, or \<^verbatim>\<open>STATUS_ERROR\<close>:
  every call of a build without assertion checking, and every call with a non-empty
  salt or none of a build with it. Each failure returns the one value \<^verbatim>\<open>STATUS_ERROR\<close>
  with its own message: an unknown role, a null password, an empty password, a failed
  encryption (no message), two compared values that differ, an expired password. The
  call returns \<^verbatim>\<open>STATUS_OK\<close> when the compared values are equal and the password has
  not expired.
\<close>

theorem failure_classes_one_reject_value:
  assumes "asserts \<longrightarrow> md5_salt \<noteq> Some []"
  shows "md5_crypt_verify asserts n enc cache now role client_pass md5_salt
         \<in> {Returned STATUS_OK None,
            Returned STATUS_ERROR (Some (Role_does_not_exist role)),
            Returned STATUS_ERROR (Some (User_has_no_password_assigned role)),
            Returned STATUS_ERROR (Some (User_has_an_empty_password role)),
            Returned STATUS_ERROR (Some (Password_does_not_match role)),
            Returned STATUS_ERROR (Some (User_has_an_expired_password role)),
            Returned STATUS_ERROR None}
       \<and> (cache role = None \<longrightarrow>
            md5_crypt_verify asserts n enc cache now role client_pass md5_salt
            = Returned STATUS_ERROR (Some (Role_does_not_exist role)))
       \<and> (cache role = Some roleTup \<and> rolpassword roleTup = None \<longrightarrow>
            md5_crypt_verify asserts n enc cache now role client_pass md5_salt
            = Returned STATUS_ERROR (Some (User_has_no_password_assigned role)))
       \<and> (cache role = Some roleTup \<and> rolpassword roleTup = Some [] \<longrightarrow>
            md5_crypt_verify asserts n enc cache now role client_pass md5_salt
            = Returned STATUS_ERROR (Some (User_has_an_empty_password role)))
       \<and> (cache role = Some roleTup \<and> rolpassword roleTup = Some shadow_pass
            \<and> shadow_pass \<noteq> []
            \<and> comparison_values asserts n enc role shadow_pass client_pass md5_salt
                = Encrypt_failed \<longrightarrow>
            md5_crypt_verify asserts n enc cache now role client_pass md5_salt
            = Returned STATUS_ERROR None)
       \<and> (cache role = Some roleTup \<and> rolpassword roleTup = Some shadow_pass
            \<and> shadow_pass \<noteq> []
            \<and> comparison_values asserts n enc role shadow_pass client_pass md5_salt
                = Compare a b
            \<and> a \<noteq> b \<longrightarrow>
            md5_crypt_verify asserts n enc cache now role client_pass md5_salt
            = Returned STATUS_ERROR (Some (Password_does_not_match role)))
       \<and> (cache role = Some roleTup \<and> rolpassword roleTup = Some shadow_pass
            \<and> shadow_pass \<noteq> []
            \<and> comparison_values asserts n enc role shadow_pass client_pass md5_salt
                = Compare a a
            \<and> rolvaliduntil roleTup = Some vuntil \<and> vuntil <s now \<longrightarrow>
            md5_crypt_verify asserts n enc cache now role client_pass md5_salt
            = Returned STATUS_ERROR (Some (User_has_an_expired_password role)))
       \<and> (cache role = Some roleTup \<and> rolpassword roleTup = Some shadow_pass
            \<and> shadow_pass \<noteq> []
            \<and> comparison_values asserts n enc role shadow_pass client_pass md5_salt
                = Compare a a
            \<and> rolvaliduntil roleTup = Some vuntil \<and> \<not> vuntil <s now \<longrightarrow>
            md5_crypt_verify asserts n enc cache now role client_pass md5_salt
            = Returned STATUS_OK None)
       \<and> (cache role = Some roleTup \<and> rolpassword roleTup = Some shadow_pass
            \<and> shadow_pass \<noteq> []
            \<and> comparison_values asserts n enc role shadow_pass client_pass md5_salt
                = Compare a a
            \<and> rolvaliduntil roleTup = None \<longrightarrow>
            md5_crypt_verify asserts n enc cache now role client_pass md5_salt
            = Returned STATUS_OK None)"
proof -
  have no_stop: "comparison_values asserts n enc role sp client_pass md5_salt \<noteq> Assert_failed"
    for sp
    using assms by (auto simp add: comparison_values_def split: option.split)
  have range: "md5_crypt_verify asserts n enc cache now role client_pass md5_salt
         \<in> {Returned STATUS_OK None,
            Returned STATUS_ERROR (Some (Role_does_not_exist role)),
            Returned STATUS_ERROR (Some (User_has_no_password_assigned role)),
            Returned STATUS_ERROR (Some (User_has_an_empty_password role)),
            Returned STATUS_ERROR (Some (Password_does_not_match role)),
            Returned STATUS_ERROR (Some (User_has_an_expired_password role)),
            Returned STATUS_ERROR None}"
  proof (cases "cache role")
    case None
    then show ?thesis by (simp add: md5_crypt_verify_def)
  next
    case (Some tup)
    show ?thesis
    proof (cases "rolpassword tup")
      case None
      with Some show ?thesis by (simp add: md5_crypt_verify_def)
    next
      case (Some sp)
      show ?thesis
      proof (cases "sp = []")
        case True
        with \<open>cache role = Some tup\<close> Some show ?thesis
          by (simp add: md5_crypt_verify_def)
      next
        case False
        with \<open>cache role = Some tup\<close> Some no_stop [of sp] show ?thesis
          by (simp add: verify_known_role [where shadow_pass = sp and roleTup = tup]
                split: prepared.split option.split)
      qed
    qed
  qed
  have causes: "cache role = None \<Longrightarrow>
      md5_crypt_verify asserts n enc cache now role client_pass md5_salt
      = Returned STATUS_ERROR (Some (Role_does_not_exist role))"
    "cache role = Some roleTup \<Longrightarrow> rolpassword roleTup = None \<Longrightarrow>
      md5_crypt_verify asserts n enc cache now role client_pass md5_salt
      = Returned STATUS_ERROR (Some (User_has_no_password_assigned role))"
    "cache role = Some roleTup \<Longrightarrow> rolpassword roleTup = Some [] \<Longrightarrow>
      md5_crypt_verify asserts n enc cache now role client_pass md5_salt
      = Returned STATUS_ERROR (Some (User_has_an_empty_password role))"
    by (simp_all add: md5_crypt_verify_def)
  from range causes show ?thesis
    by (simp add: verify_known_role)
qed

theorem failure_classes_one_reject_value_witness:
  "md5_crypt_verify False 35 sample_encrypt sample_cache 0 ''alice''
     ''md5alicesecret123000000000000000000'' (Some [])
   \<in> {Returned STATUS_OK None,
      Returned STATUS_ERROR (Some (Role_does_not_exist ''alice'')),
      Returned STATUS_ERROR (Some (User_has_no_password_assigned ''alice'')),
      Returned STATUS_ERROR (Some (User_has_an_empty_password ''alice'')),
      Returned STATUS_ERROR (Some (Password_does_not_match ''alice'')),
      Returned STATUS_ERROR (Some (User_has_an_expired_password ''alice'')),
      Returned STATUS_ERROR None}
   \<and> md5_crypt_verify True 35 sample_encrypt sample_cache 0 ''mallory'' ''guess'' None
     = Returned STATUS_ERROR (Some (Role_does_not_exist ''mallory''))
   \<and> md5_crypt_verify True 35 sample_encrypt sample_cache 0 ''carol'' ''guess'' None
     = Returned STATUS_ERROR (Some (User_has_no_password_assigned ''carol''))
   \<and> md5_crypt_verify True 35 sample_encrypt sample_cache 0 ''dave'' ''guess'' None
     = Returned STATUS_ERROR (Some (User_has_an_empty_password ''dave''))
   \<and> md5_crypt_verify True 35 failing_encrypt sample_cache 0 ''bob'' ''p@ss'' None
     = Returned STATUS_ERROR None
   \<and> md5_crypt_verify True 35 sample_encrypt sample_cache 0 ''alice'' ''guess'' None
     = Returned STATUS_ERROR (Some (Password_does_not_match ''alice''))
   \<and> md5_crypt_verify True 35 sample_encrypt sample_cache 6000000 ''erin'' ''hunter2'' None
     = Returned STATUS_ERROR (Some (User_has_an_expired_password ''erin''))
   \<and> md5_crypt_verify True 35 sample_encrypt sample_cache 4000000 ''erin'' ''hunter2'' None
     = Returned STATUS_OK None
   \<and> md5_crypt_verify True 35 sample_encrypt sample_cache 0 ''alice'' ''secret123'' None
     = Returned STATUS_OK None"
proof -
  note t = failure_classes_one_reject_value [where n = 35 and cache = sample_cache]
  have cv: "comparison_values True 35 failing_encrypt ''bob''
        ''md5bobp@ss0000000000000000000000000'' ''p@ss'' None = Encrypt_failed"
    "comparison_values True 35 sample_encrypt ''alice'' ''secret123'' ''guess'' None
       = Compare ''guess'' ''secret123''"
    "comparison_values True 35 sample_encrypt ''erin'' ''hunter2'' ''hunter2'' None
       = Compare ''hunter2'' ''hunter2''"
    "comparison_values True 35 sample_encrypt ''alice'' ''secret123'' ''secret123'' None
       = Compare ''secret123'' ''secret123''"
    by (simp_all add: comparison_values_def isMD5_def failing_encrypt_def)
  have order: "(5000000 :: 64 word) <s 6000000" "\<not> (5000000 :: 64 word) <s 4000000"
    by (simp_all add: word_sless_alt)
  have 0: "md5_crypt_verify False 35 sample_encrypt sample_cache 0 ''alice''
     ''md5alicesecret123000000000000000000'' (Some [])
   \<in> {Returned STATUS_OK None,
      Returned STATUS_ERROR (Some (Role_does_not_exist ''alice'')),
      Returned STATUS_ERROR (Some (User_has_no_password_assigned ''alice'')),
      Returned STATUS_ERROR (Some (User_has_an_empty_password ''alice'')),
      Returned STATUS_ERROR (Some (Password_does_not_match ''alice'')),
      Returned STATUS_ERROR (Some (User_has_an_expired_password ''alice'')),
      Returned STATUS_ERROR None}"
    using t [where asserts = False and enc = sample_encrypt and now = 0 and role = "''alice''"
        and client_pass = "''md5alicesecret123000000000000000000''" and md5_salt = "Some []"]
    by simp
  have 1: "md5_crypt_verify True 35 sample_encrypt sample_cache 0 ''mallory'' ''guess'' None
     = Returned STATUS_ERROR (Some (Role_does_not_exist ''mallory''))"
    using t [where asserts = True and enc = sample_encrypt and now = 0
        and role = "''mallory''" and client_pass = "''guess''" and md5_salt = None]
      sample_rows
    by simp
  have 2: "md5_crypt_verify True 35 sample_encrypt sample_cache 0 ''carol'' ''guess'' None
     = Returned STATUS_ERROR (Some (User_has_no_password_assigned ''carol''))"
    using t [where asserts = True and enc = sample_encrypt and now = 0
        and role = "''carol''" and client_pass = "''guess''" and md5_salt = None
        and roleTup = "\<lparr>rolpassword = None, rolvaliduntil = None\<rparr>"]
      sample_rows
    by simp
  have 3: "md5_crypt_verify True 35 sample_encrypt sample_cache 0 ''dave'' ''guess'' None
     = Returned STATUS_ERROR (Some (User_has_an_empty_password ''dave''))"
    using t [where asserts = True and enc = sample_encrypt and now = 0
        and role = "''dave''" and client_pass = "''guess''" and md5_salt = None
        and roleTup = "\<lparr>rolpassword = Some [], rolvaliduntil = None\<rparr>"]
      sample_rows
    by simp
  have 4: "md5_crypt_verify True 35 failing_encrypt sample_cache 0 ''bob'' ''p@ss'' None
     = Returned STATUS_ERROR None"
    using t [where asserts = True and enc = failing_encrypt and now = 0
        and role = "''bob''" and client_pass = "''p@ss''" and md5_salt = None
        and roleTup = "\<lparr>rolpassword = Some ''md5bobp@ss0000000000000000000000000'',
                        rolvaliduntil = None\<rparr>"
        and shadow_pass = "''md5bobp@ss0000000000000000000000000''"]
      sample_rows cv(1)
    by simp
  have 5: "md5_crypt_verify True 35 sample_encrypt sample_cache 0 ''alice'' ''guess'' None
     = Returned STATUS_ERROR (Some (Password_does_not_match ''alice''))"
    using t [where asserts = True and enc = sample_encrypt and now = 0
        and role = "''alice''" and client_pass = "''guess''" and md5_salt = None
        and roleTup = "\<lparr>rolpassword = Some ''secret123'', rolvaliduntil = None\<rparr>"
        and shadow_pass = "''secret123''" and a = "''guess''" and b = "''secret123''"]
      sample_rows cv(2)
    by simp
  have 6: "md5_crypt_verify True 35 sample_encrypt sample_cache 6000000 ''erin'' ''hunter2'' None
     = Returned STATUS_ERROR (Some (User_has_an_expired_password ''erin''))"
    using t [where asserts = True and enc = sample_encrypt and now = 6000000
        and role = "''erin''" and client_pass = "''hunter2''" and md5_salt = None
        and roleTup = "\<lparr>rolpassword = Some ''hunter2'', rolvaliduntil = Some 5000000\<rparr>"
        and shadow_pass = "''hunter2''" and a = "''hunter2''" and vuntil = 5000000]
      sample_rows cv(3) order(1)
    by simp
  have 7: "md5_crypt_verify True 35 sample_encrypt sample_cache 4000000 ''erin'' ''hunter2'' None
     = Returned STATUS_OK None"
    using t [where asserts = True and enc = sample_encrypt and now = 4000000
        and role = "''erin''" and client_pass = "''hunter2''" and md5_salt = None
        and roleTup = "\<lparr>rolpassword = Some ''hunter2'', rolvaliduntil = Some 5000000\<rparr>"
        and shadow_pass = "''hunter2''" and a = "''hunter2''" and vuntil = 5000000]
      sample_rows cv(3) order(2)
    by simp
  have 8: "md5_crypt_verify True 35 sample_encrypt sample_cache 0 ''alice'' ''secret123'' None
     = Returned STATUS_OK None"
    using t [where asserts = True and enc = sample_encrypt and now = 0
        and role = "''alice''" and client_pass = "''secret123''" and md5_salt = None
        and roleTup = "\<lparr>rolpassword = Some ''secret123'', rolvaliduntil = None\<rparr>"
        and shadow_pass = "''secret123''" and a = "''secret123''"]
      sample_rows cv(4)
    by simp
  from 0 1 2 3 4 5 6 7 8 show ?thesis
    by (intro conjI)
qed




text \<open>
  C10. A stored password of the hashed shape is handled as a hash, with or without a
  salt, whatever it was meant to be: without a salt the presented password is encrypted
  with the role name and the result compared with the stored bytes; with a salt the
  stored bytes, marker stripped, are encrypted with the salt. So a client that presents
  the stored bytes themselves as its plaintext is rejected, with no message when the
  encryption fails and with "Password does not match" when the encryption of those bytes
  with the role name differs from them.
\<close>

theorem shape_decides_form:
  assumes "cache role = Some roleTup"
    and "rolpassword roleTup = Some shadow_pass"
    and "isMD5 n shadow_pass"
  shows "comparison_values asserts n enc role shadow_pass client_pass None
         = (case enc client_pass role of
              None \<Rightarrow> Encrypt_failed
            | Some hashed \<Rightarrow> Compare hashed shadow_pass)
       \<and> (salt \<noteq> [] \<longrightarrow>
            comparison_values asserts n enc role shadow_pass client_pass (Some salt)
            = (case enc (drop 3 shadow_pass) salt of
                 None \<Rightarrow> Encrypt_failed
               | Some expected \<Rightarrow> Compare client_pass expected))
       \<and> (enc shadow_pass role = None \<longrightarrow>
            md5_crypt_verify asserts n enc cache now role shadow_pass None
            = Returned STATUS_ERROR None)
       \<and> (enc shadow_pass role = Some hashed \<and> hashed \<noteq> shadow_pass \<longrightarrow>
            md5_crypt_verify asserts n enc cache now role shadow_pass None
            = Returned STATUS_ERROR (Some (Password_does_not_match role)))"
proof -
  have "shadow_pass \<noteq> []"
    using assms(3) by (rule isMD5_nonempty)
  with assms show ?thesis
    by (auto simp add: verify_known_role comparison_values_def numeral_3_eq_3
          split: option.splits if_splits)
qed

theorem shape_decides_form_witness:
  "comparison_values True 35 sample_encrypt ''bob'' ''md5bobp@ss0000000000000000000000000''
     ''md5bobp@ss0000000000000000000000000'' None
     = Compare ''md5bobmd5bobp@ss0000000000000000000''
         ''md5bobp@ss0000000000000000000000000''
   \<and> comparison_values True 35 sample_encrypt ''bob'' ''md5bobp@ss0000000000000000000000000''
     ''md5bobp@ss0000000000000000000000000'' (Some ''XY12'')
     = Compare ''md5bobp@ss0000000000000000000000000''
         ''md5XY12bobp@ss000000000000000000000''
   \<and> md5_crypt_verify True 35 failing_encrypt sample_cache 0 ''bob''
     ''md5bobp@ss0000000000000000000000000'' None
     = Returned STATUS_ERROR None
   \<and> md5_crypt_verify True 35 sample_encrypt sample_cache 0 ''bob''
     ''md5bobp@ss0000000000000000000000000'' None
     = Returned STATUS_ERROR (Some (Password_does_not_match ''bob''))"
proof -
  note bob = shape_decides_form [where cache = sample_cache and role = "''bob''"
      and roleTup = "\<lparr>rolpassword = Some ''md5bobp@ss0000000000000000000000000'',
                      rolvaliduntil = None\<rparr>"
      and shadow_pass = "''md5bobp@ss0000000000000000000000000''" and asserts = True and n = 35 and now = 0
      and client_pass = "''md5bobp@ss0000000000000000000000000''" and salt = "''XY12''"]
  have 1: "comparison_values True 35 sample_encrypt ''bob'' ''md5bobp@ss0000000000000000000000000''
     ''md5bobp@ss0000000000000000000000000'' None
     = Compare ''md5bobmd5bobp@ss0000000000000000000''
         ''md5bobp@ss0000000000000000000000000''
   \<and> comparison_values True 35 sample_encrypt ''bob'' ''md5bobp@ss0000000000000000000000000''
     ''md5bobp@ss0000000000000000000000000'' (Some ''XY12'')
     = Compare ''md5bobp@ss0000000000000000000000000''
         ''md5XY12bobp@ss000000000000000000000''
   \<and> md5_crypt_verify True 35 sample_encrypt sample_cache 0 ''bob''
     ''md5bobp@ss0000000000000000000000000'' None
     = Returned STATUS_ERROR (Some (Password_does_not_match ''bob''))"
    using bob [where enc = sample_encrypt
        and hashed = "''md5bobmd5bobp@ss0000000000000000000''"]
      sample_rows sample_shapes
    by (simp add: sample_encrypt_def)
  have 2: "md5_crypt_verify True 35 failing_encrypt sample_cache 0 ''bob''
     ''md5bobp@ss0000000000000000000000000'' None
     = Returned STATUS_ERROR None"
    using bob [where enc = failing_encrypt] sample_rows sample_shapes
    by (simp add: failing_encrypt_def)
  from 1 2 show ?thesis by simp
qed

end
